theory Spec2Isabelle
  imports Main
begin

section \<open>TranscriptClean: the per-record correction engine\<close>

text \<open>
  A shallow embedding of the correction functions of \<^verbatim>\<open>TranscriptClean.py\<close>.
  Python's unbounded integers are \<^typ>\<open>int\<close>, its strings are \<^typ>\<open>string\<close>
  (ASCII text), and every exception the source can raise is a value of a sum type
  (\<open>Inl\<close> the exception, \<open>Inr\<close> the returned value).
\<close>

subsection \<open>Python primitives the source relies on\<close>

text \<open>
  \<open>ValueError\<close> is what \<^verbatim>\<open>int(...)\<close> raises on malformed text, \<open>IndexError\<close> what an
  out-of-range subscript raises. \<open>Raised\<close> stands for an exception raised by code outside
  the file (the Transcript and SpliceJunction classes, pyfasta, pybedtools).
\<close>

datatype exn = ValueError | IndexError | Raised string

definition is_digit :: "char \<Rightarrow> bool" where
  "is_digit c = (c \<in> set ''0123456789'')"

definition is_upper :: "char \<Rightarrow> bool" where
  "is_upper c = (c \<in> set ''ABCDEFGHIJKLMNOPQRSTUVWXYZ'')"

text \<open>The ASCII characters \<^verbatim>\<open>str.split()\<close> treats as white space.\<close>

definition py_isspace :: "char \<Rightarrow> bool" where
  "py_isspace c = (c \<in> set [CHR 0x09, CHR 0x0A, CHR 0x0B, CHR 0x0C, CHR 0x0D,
                               CHR 0x1C, CHR 0x1D, CHR 0x1E, CHR 0x1F, CHR 0x20])"

text \<open>\<^verbatim>\<open>re.sub('[...]', " ", s)\<close> for a one-character class.\<close>

definition re_sub :: "(char \<Rightarrow> bool) \<Rightarrow> string \<Rightarrow> string" where
  "re_sub cls s = map (\<lambda>c. if cls c then CHR '' '' else c) s"

text \<open>\<^verbatim>\<open>s.split()\<close>: the maximal runs of characters that are not white space.\<close>

fun split_ws :: "string \<Rightarrow> string \<Rightarrow> string list" where
  "split_ws cur [] = (if cur = [] then [] else [cur])"
| "split_ws cur (c # cs) =
     (if py_isspace c then (if cur = [] then split_ws [] cs else cur # split_ws [] cs)
      else split_ws (cur @ [c]) cs)"

definition py_split :: "string \<Rightarrow> string list" where
  "py_split s = split_ws [] s"

text \<open>\<^verbatim>\<open>str(n)\<close> for an integer: decimal digits, a minus sign for a negative number.\<close>

definition digit_char :: "nat \<Rightarrow> char" where
  "digit_char d = ''0123456789'' ! d"

function str_nat :: "nat \<Rightarrow> string" where
  "str_nat n = (if n < 10 then [digit_char n] else str_nat (n div 10) @ [digit_char (n mod 10)])"
  by pat_completeness auto
termination
  by (relation "measure id") auto

declare str_nat.simps [simp del]

definition py_str :: "int \<Rightarrow> string" where
  "py_str i = (if i < 0 then CHR ''-'' # str_nat (nat (- i)) else str_nat (nat i))"

text \<open>
  \<^verbatim>\<open>int(tok)\<close>: white space around the number is ignored; the number is an optional
  sign, then decimal digits that single underscores may separate; anything else raises
  \<open>ValueError\<close>.
\<close>

definition py_strip :: "string \<Rightarrow> string" where
  "py_strip s = rev (dropWhile py_isspace (rev (dropWhile py_isspace s)))"

definition digit_val :: "char \<Rightarrow> int" where
  "digit_val c = int (of_char c) - 48"

fun int_body :: "bool \<Rightarrow> string \<Rightarrow> bool" where
  "int_body d [] = d"
| "int_body d (c # cs) =
     (if is_digit c then int_body True cs
      else if c = CHR ''_'' \<and> d then int_body False cs
      else False)"

definition digits_val :: "string \<Rightarrow> int" where
  "digits_val s = foldl (\<lambda>a c. 10 * a + digit_val c) 0 (filter is_digit s)"

definition py_int :: "string \<Rightarrow> exn + int" where
  "py_int tok =
     (let (sign, body) =
            (case py_strip tok of
               [] \<Rightarrow> (1, [])
             | c # r \<Rightarrow> if c = CHR ''-'' then (- 1, r)
                        else if c = CHR ''+'' then (1, r) else (1, c # r))
      in if int_body False body then Inr (sign * digits_val body) else Inl ValueError)"

text \<open>\<^verbatim>\<open>[int(i) for i in toks]\<close>: the first malformed token raises.\<close>

fun int_list :: "string list \<Rightarrow> exn + int list" where
  "int_list [] = Inr []"
| "int_list (t # ts) =
     (case py_int t of
        Inl e \<Rightarrow> Inl e
      | Inr i \<Rightarrow> (case int_list ts of Inl e \<Rightarrow> Inl e | Inr js \<Rightarrow> Inr (i # js)))"

text \<open>
  Slices \<^verbatim>\<open>xs[a:b]\<close> and \<^verbatim>\<open>xs[a:]\<close>: a negative bound counts from the end, and
  bounds outside the list are clipped (a slice never raises).
\<close>

definition slice_bound :: "int \<Rightarrow> nat \<Rightarrow> nat" where
  "slice_bound i n = (if i < 0 then nat (max 0 (i + int n)) else min (nat i) n)"

definition py_slice :: "'a list \<Rightarrow> int \<Rightarrow> int \<Rightarrow> 'a list" where
  "py_slice xs a b =
     (let lo = slice_bound a (length xs); hi = slice_bound b (length xs)
      in take (hi - lo) (drop lo xs))"

definition py_slice_from :: "'a list \<Rightarrow> int \<Rightarrow> 'a list" where
  "py_slice_from xs a = drop (slice_bound a (length xs)) xs"

text \<open>\<^verbatim>\<open>sep.join(parts)\<close>.\<close>

fun join :: "string \<Rightarrow> string list \<Rightarrow> string" where
  "join sep [] = []"
| "join sep [x] = x"
| "join sep (x # y # ys) = x @ sep @ join sep (y # ys)"

subsection \<open>CIGAR strings\<close>

text \<open>
  \<^verbatim>\<open>splitCIGAR\<close>: the operation tokens are what is left between digits, the counts what
  is left between upper-case letters, each count converted with \<^verbatim>\<open>int\<close>.
\<close>

definition splitCIGAR :: "string \<Rightarrow> exn + (string list \<times> int list)" where
  "splitCIGAR CIGAR =
     (let matchTypes = py_split (re_sub is_digit CIGAR);
          matchCounts = py_split (re_sub is_upper CIGAR)
      in case int_list matchCounts of
           Inl e \<Rightarrow> Inl e
         | Inr counts \<Rightarrow> Inr (matchTypes, counts))"

text \<open>
  \<^verbatim>\<open>check_CIGAR_validity\<close>: a string with a minus sign fails at once; otherwise the loop
  carries the previous operation (the empty string before the first one).
\<close>

fun validity_loop :: "string \<Rightarrow> (string \<times> int) list \<Rightarrow> bool" where
  "validity_loop prev [] = True"
| "validity_loop prev ((op, ct) # rest) =
     (if prev = ''N'' \<and> op \<noteq> ''M'' then False
      else if prev = ''D'' \<and> op = ''N'' then False
      else validity_loop op rest)"

definition check_CIGAR_validity :: "string \<Rightarrow> exn + bool" where
  "check_CIGAR_validity CIGAR =
     (if CHR ''-'' \<in> set CIGAR then Inr False
      else case splitCIGAR CIGAR of
             Inl e \<Rightarrow> Inl e
           | Inr (operations, counts) \<Rightarrow> Inr (validity_loop [] (zip operations counts)))"

text \<open>
  The text of a CIGAR given as its operations: each one is written \<^verbatim>\<open>str(ct) + op\<close>,
  the way every function of the file that builds a CIGAR writes it. A CIGAR is well formed
  when every operation is one upper-case letter with a count that is not negative.
\<close>

definition cigar_text :: "(string \<times> int) list \<Rightarrow> string" where
  "cigar_text ops = concat (map (\<lambda>(op, ct). py_str ct @ op) ops)"

fun wf_op :: "string \<times> int \<Rightarrow> bool" where
  "wf_op (op, ct) = (0 \<le> ct \<and> (case op of [c] \<Rightarrow> is_upper c | _ \<Rightarrow> False))"

definition wf_cigar :: "(string \<times> int) list \<Rightarrow> bool" where
  "wf_cigar ops = list_all wf_op ops"

text \<open>
  The patterns the validator is specified by, on the sequence of operation letters:
  a Deletion immediately followed by a Skip; a Skip immediately followed by an operation
  that is not a Match; and, as the specification words it, a Skip that is not immediately
  followed by a Match (which a Skip at the very end also is).
\<close>

fun deletion_then_skip :: "string list \<Rightarrow> bool" where
  "deletion_then_skip (a # b # rest) = ((a = ''D'' \<and> b = ''N'') \<or> deletion_then_skip (b # rest))"
| "deletion_then_skip _ = False"

fun skip_then_other :: "string list \<Rightarrow> bool" where
  "skip_then_other (a # b # rest) = ((a = ''N'' \<and> b \<noteq> ''M'') \<or> skip_then_other (b # rest))"
| "skip_then_other _ = False"

fun skip_without_match :: "string list \<Rightarrow> bool" where
  "skip_without_match [] = False"
| "skip_without_match [a] = (a = ''N'')"
| "skip_without_match (a # b # rest) = ((a = ''N'' \<and> b \<noteq> ''M'') \<or> skip_without_match (b # rest))"

subsection \<open>Combined junction distance\<close>

text \<open>
  \<^verbatim>\<open>combinedJunctionDist(dist_0, dist_1)\<close>: the sum of the magnitudes when the
  product of the two offsets is not positive, the magnitude of the difference of the
  magnitudes otherwise.
\<close>

definition combinedJunctionDist :: "int \<Rightarrow> int \<Rightarrow> int" where
  "combinedJunctionDist dist_0 dist_1 =
     (if dist_0 * dist_1 \<le> 0 then \<bar>dist_0\<bar> + \<bar>dist_1\<bar>
      else \<bar>\<bar>dist_0\<bar> - \<bar>dist_1\<bar>\<bar>)"

subsection \<open>Records, references and logs\<close>

text \<open>
  The attributes of a \<^verbatim>\<open>Transcript\<close> object that the file reads or assigns. The class is
  defined outside the file; its splice junctions are objects of their own, shared between
  a transcript and its copies, and are kept apart from this record (see below).
\<close>

record transcript =
  QNAME :: string
  CHROM :: string
  POS :: int
  SEQ :: string
  CIGAR :: string
  NM :: int
  MD :: string
  jM :: string
  jI :: string
  isCanonical :: bool

text \<open>
  The per-transcript log of \<^verbatim>\<open>init_log_info\<close>: every counter starts as the text
  \<^verbatim>\<open>"NA"\<close> (\<open>None\<close>) and becomes a number once its corrector has run.
\<close>

record logInfo =
  TranscriptID :: string
  Mapping :: string
  corrected_deletions :: "int option"
  uncorrected_deletions :: "int option"
  variant_deletions :: "int option"
  corrected_insertions :: "int option"
  uncorrected_insertions :: "int option"
  variant_insertions :: "int option"
  corrected_mismatches :: "int option"
  uncorrected_mismatches :: "int option"
  corrected_NC_SJs :: "int option"
  uncorrected_NC_SJs :: "int option"

text \<open>
  \<^verbatim>\<open>counter += 1\<close>. Every corrector sets its counters to 0 before its loop, so the
  increment never meets \<^verbatim>\<open>"NA"\<close>.
\<close>

definition incr :: "int option \<Rightarrow> int option" where
  "incr c = map_option (\<lambda>n. n + 1) c"

text \<open>
  The genome accessor \<^verbatim>\<open>genome.sequence({'chr': c, 'start': a, 'stop': b}, one_based=True)\<close>
  of pyfasta, a parameter of the model: the bases of chromosome \<open>c\<close> from \<open>a\<close> to \<open>b\<close>, or the
  exception it raises.
\<close>

type_synonym genome = "string \<Rightarrow> int \<Rightarrow> int \<Rightarrow> exn + string"

definition tab :: string where
  "tab = [CHR 0x09]"

definition indel_ID :: "string \<Rightarrow> int \<Rightarrow> int \<Rightarrow> string" where
  "indel_ID chrom genomePos ct =
     join ''_'' [chrom, py_str genomePos, py_str (genomePos + ct - 1)]"

subsection \<open>Insertion correction\<close>

text \<open>\<^verbatim>\<open>endMatch(MVal, newCIGAR)\<close>: write out a pending run of matches.\<close>

definition endMatch :: "int \<Rightarrow> string \<Rightarrow> int \<times> string" where
  "endMatch MVal newCIGAR =
     (if MVal > 0 then (0, newCIGAR @ py_str MVal @ ''M'') else (MVal, newCIGAR))"

text \<open>
  The variables of a correction loop. The log object is one of them: the correctors
  update the caller's \<^verbatim>\<open>logInfo\<close> in place.
\<close>

record corr_state =
  newCIGAR :: string
  newSeq :: string
  MVal :: int
  seqPos :: int
  genomePos :: int
  TE_entries :: "string list"
  log :: logInfo

definition end_match :: "corr_state \<Rightarrow> corr_state" where
  "end_match s =
     (let (m, c) = endMatch (MVal s) (newCIGAR s) in s\<lparr>MVal := m, newCIGAR := c\<rparr>)"

definition copy_bases :: "string \<Rightarrow> int \<Rightarrow> corr_state \<Rightarrow> corr_state" where
  "copy_bases origSeq ct s =
     s\<lparr>newSeq := newSeq s @ py_slice origSeq (seqPos s) (seqPos s + ct)\<rparr>"

definition append_op :: "int \<Rightarrow> string \<Rightarrow> corr_state \<Rightarrow> corr_state" where
  "append_op ct op s = s\<lparr>newCIGAR := newCIGAR s @ py_str ct @ op\<rparr>"

definition log_entry :: "string list \<Rightarrow> corr_state \<Rightarrow> corr_state" where
  "log_entry cols s = s\<lparr>TE_entries := TE_entries s @ [join tab cols]\<rparr>"

text \<open>
  One iteration of the loop of \<^verbatim>\<open>correctInsertions\<close>. The source tests \<^verbatim>\<open>op\<close> with
  four \<^verbatim>\<open>if\<close> statements in a row; \<^verbatim>\<open>op\<close> does not change, so at most one of them
  applies, and an operation that none of them names is dropped.
\<close>

definition ins_body ::
  "transcript \<Rightarrow> (string \<rightharpoonup> string list) \<Rightarrow> int \<Rightarrow> corr_state \<Rightarrow> string \<times> int \<Rightarrow> corr_state" where
  "ins_body t variants maxLen s opct =
     (let op = fst opct; ct = snd opct; origSeq = SEQ t in
      if op = ''M'' then
        (copy_bases origSeq ct s)
          \<lparr>MVal := MVal s + ct, seqPos := seqPos s + ct, genomePos := genomePos s + ct\<rparr>
      else if op = ''I'' then
        (let ID = indel_ID (CHROM t) (genomePos s) ct;
             currSeq = py_slice origSeq (seqPos s) (seqPos s + ct);
             leave = (\<lambda>s. (append_op ct op (copy_bases origSeq ct (end_match s)))
                             \<lparr>seqPos := seqPos s + ct\<rparr>)
         in if ct \<le> maxLen then
              (if (case variants ID of None \<Rightarrow> False | Some alleles \<Rightarrow> currSeq \<in> set alleles)
               then leave (log_entry [QNAME t, ID, ''Insertion'', py_str ct, ''Uncorrected'',
                                      ''VariantMatch'']
                             (s\<lparr>log := (log s)\<lparr>variant_insertions :=
                                                  incr (variant_insertions (log s))\<rparr>\<rparr>))
               else (log_entry [QNAME t, ID, ''Insertion'', py_str ct, ''Corrected'', ''NA'']
                       (s\<lparr>log := (log s)\<lparr>corrected_insertions :=
                                            incr (corrected_insertions (log s))\<rparr>\<rparr>))
                      \<lparr>seqPos := seqPos s + ct\<rparr>)
            else leave (log_entry [QNAME t, ID, ''Insertion'', py_str ct, ''Uncorrected'',
                                   ''TooLarge'']
                          (s\<lparr>log := (log s)\<lparr>uncorrected_insertions :=
                                               incr (uncorrected_insertions (log s))\<rparr>\<rparr>)))
      else if op = ''S'' then
        (append_op ct op (copy_bases origSeq ct (end_match s)))\<lparr>seqPos := seqPos s + ct\<rparr>
      else if op \<in> set [''N'', ''H'', ''D''] then
        append_op ct op ((end_match s)\<lparr>genomePos := genomePos s + ct\<rparr>)
      else s)"

definition init_state :: "transcript \<Rightarrow> logInfo \<Rightarrow> corr_state" where
  "init_state t l =
     \<lparr>newCIGAR = [], newSeq = [], MVal = 0, seqPos = 0, genomePos = POS t,
      TE_entries = [], log = l\<rparr>"

definition ins_loop ::
  "transcript \<Rightarrow> (string \<rightharpoonup> string list) \<Rightarrow> int \<Rightarrow> corr_state \<Rightarrow> (string \<times> int) list \<Rightarrow> corr_state" where
  "ins_loop t variants maxLen s ops = foldl (ins_body t variants maxLen) s ops"

text \<open>
  \<^verbatim>\<open>correctInsertions\<close>. The result pairs what the call returns or raises with the log
  as the call leaves it. \<^verbatim>\<open>transcript.splitCIGAR()\<close> is a method of the Transcript
  class; it is taken to be the file's own \<^verbatim>\<open>splitCIGAR\<close> applied to the transcript's
  CIGAR. It is called before the test for an \<^verbatim>\<open>I\<close> in the CIGAR.
\<close>

definition correctInsertions ::
  "transcript \<Rightarrow> (string \<rightharpoonup> string list) \<Rightarrow> int \<Rightarrow> logInfo
     \<Rightarrow> (exn + transcript \<times> string list) \<times> logInfo" where
  "correctInsertions t variants maxLen logInfo =
     (let l = logInfo\<lparr>uncorrected_insertions := Some 0, corrected_insertions := Some 0,
                       variant_insertions := Some 0\<rparr>
      in case splitCIGAR (CIGAR t) of
           Inl e \<Rightarrow> (Inl e, l)
         | Inr (cigarOps, cigarCounts) \<Rightarrow>
             if CHR ''I'' \<notin> set (CIGAR t) then (Inr (t, []), l)
             else (let s = end_match (ins_loop t variants maxLen (init_state t l)
                                        (zip cigarOps cigarCounts))
                   in (Inr (t\<lparr>CIGAR := newCIGAR s, SEQ := newSeq s\<rparr>, TE_entries s), log s)))"

subsection \<open>Classes defined outside the file\<close>

text \<open>
  A splice junction object and its two boundary objects. Both classes are defined outside
  the file; the fields are the attributes the file reads or assigns (\<^verbatim>\<open>chrom\<close>,
  \<^verbatim>\<open>start\<close>, \<^verbatim>\<open>end\<close>, \<^verbatim>\<open>isCanonical\<close>). \<open>jn_donor\<close> and
  \<open>jn_acceptor\<close> are the boundary objects that \<^verbatim>\<open>get_splice_donor()\<close> and
  \<^verbatim>\<open>get_splice_acceptor()\<close> hand out: the junction's own, not copies, since
  \<^verbatim>\<open>update_post_ncsj_correction\<close> reassigns the junction's position "based on its
  bounds" after \<^verbatim>\<open>fix_one_side_of_junction\<close> has moved them.
\<close>

record intronBound =
  pos :: int
  bound :: int

record spliceJunction =
  jn_chrom :: string
  jn_start :: int
  jn_end :: int
  jn_isCanonical :: bool
  jn_donor :: intronBound
  jn_acceptor :: intronBound

text \<open>
  The methods of the Transcript and SpliceJunction classes that the file calls. Their code
  is outside the file, so they are parameters of the model; each returns its result or
  the exception it raises. A method of a junction returns the junction as it leaves it.
\<close>

record classes =
  new_Transcript :: "string list \<Rightarrow> genome \<Rightarrow> string set \<Rightarrow> exn + transcript \<times> spliceJunction list"
  mergeMDwithCIGAR :: "transcript \<Rightarrow> exn + string list \<times> int list"
  getNMandMDFlags :: "transcript \<Rightarrow> genome \<Rightarrow> exn + int \<times> string"
  get_jM_jI_tags_from_sjs :: "transcript \<Rightarrow> spliceJunction list \<Rightarrow> exn + string \<times> string"
  recheckCanonical :: "transcript \<Rightarrow> spliceJunction list \<Rightarrow> exn + bool"
  recheckPosition :: "spliceJunction \<Rightarrow> exn + spliceJunction"
  checkSpliceMotif :: "spliceJunction \<Rightarrow> genome \<Rightarrow> string set \<Rightarrow> exn + spliceJunction"

subsection \<open>Deletion correction\<close>

text \<open>
  One iteration of the loop of \<^verbatim>\<open>correctDeletions\<close>. The genome accessor may raise;
  the log then stays as it was at that point.
\<close>

definition del_body ::
  "transcript \<Rightarrow> genome \<Rightarrow> (string \<rightharpoonup> int) \<Rightarrow> int \<Rightarrow> corr_state \<Rightarrow> string \<times> int
     \<Rightarrow> exn \<times> logInfo + corr_state" where
  "del_body t genome variants maxLen s opct =
     (let op = fst opct; ct = snd opct; origSeq = SEQ t; chrom = CHROM t in
      if op = ''M'' then
        Inr ((copy_bases origSeq ct s)
               \<lparr>MVal := MVal s + ct, seqPos := seqPos s + ct, genomePos := genomePos s + ct\<rparr>)
      else if op = ''D'' then
        (let ID = indel_ID chrom (genomePos s) ct in
         if ct \<le> maxLen then
           (if variants ID \<noteq> None then
              (case genome chrom (genomePos s) (genomePos s + ct - 1) of
                 Inl e \<Rightarrow> Inl (e, log s)
               | Inr currSeq \<Rightarrow>
                   (let s1 = log_entry [QNAME t, ID, ''Deletion'', py_str ct, ''Uncorrected'',
                                        ''VariantMatch'']
                               (s\<lparr>log := (log s)\<lparr>variant_deletions :=
                                                    incr (variant_deletions (log s))\<rparr>\<rparr>)
                    in Inr (append_op ct op ((end_match s1)\<lparr>genomePos := genomePos s + ct\<rparr>))))
            else
              (let s1 = log_entry [QNAME t, ID, ''Deletion'', py_str ct, ''Corrected'', ''NA'']
                          (s\<lparr>log := (log s)\<lparr>corrected_deletions :=
                                               incr (corrected_deletions (log s))\<rparr>\<rparr>)
               in case genome chrom (genomePos s) (genomePos s + ct - 1) of
                    Inl e \<Rightarrow> Inl (e, log s1)
                  | Inr refBases \<Rightarrow>
                      Inr (s1\<lparr>newSeq := newSeq s @ refBases, genomePos := genomePos s + ct,
                               MVal := MVal s + ct\<rparr>)))
         else
           (let s1 = log_entry [QNAME t, ID, ''Deletion'', py_str ct, ''Uncorrected'',
                                ''TooLarge'']
                       (s\<lparr>log := (log s)\<lparr>uncorrected_deletions :=
                                            incr (uncorrected_deletions (log s))\<rparr>\<rparr>)
            in Inr ((append_op ct op (end_match s1))\<lparr>genomePos := genomePos s + ct\<rparr>)))
      else if op \<in> set [''S'', ''I''] then
        Inr ((append_op ct op (copy_bases origSeq ct (end_match s)))\<lparr>seqPos := seqPos s + ct\<rparr>)
      else if op \<in> set [''N'', ''H''] then
        Inr (append_op ct op ((end_match s)\<lparr>genomePos := genomePos s + ct\<rparr>))
      else Inr s)"

fun del_loop ::
  "transcript \<Rightarrow> genome \<Rightarrow> (string \<rightharpoonup> int) \<Rightarrow> int \<Rightarrow> corr_state \<Rightarrow> (string \<times> int) list
     \<Rightarrow> exn \<times> logInfo + corr_state" where
  "del_loop t genome variants maxLen s [] = Inr s"
| "del_loop t genome variants maxLen s (opct # rest) =
     (case del_body t genome variants maxLen s opct of
        Inl e \<Rightarrow> Inl e
      | Inr s' \<Rightarrow> del_loop t genome variants maxLen s' rest)"

text \<open>
  \<^verbatim>\<open>correctDeletions\<close>. After the loop the CIGAR and the sequence are assigned, then the
  NM and MD tags are recomputed by a method of the Transcript class, which may raise.
\<close>

definition correctDeletions ::
  "classes \<Rightarrow> transcript \<Rightarrow> genome \<Rightarrow> (string \<rightharpoonup> int) \<Rightarrow> int \<Rightarrow> logInfo
     \<Rightarrow> (exn + transcript \<times> string list) \<times> logInfo" where
  "correctDeletions cls t genome variants maxLen logInfo =
     (let l = logInfo\<lparr>uncorrected_deletions := Some 0, corrected_deletions := Some 0,
                       variant_deletions := Some 0\<rparr>
      in case splitCIGAR (CIGAR t) of
           Inl e \<Rightarrow> (Inl e, l)
         | Inr (cigarOps, cigarCounts) \<Rightarrow>
             if CHR ''D'' \<notin> set (CIGAR t) then (Inr (t, []), l)
             else (case del_loop t genome variants maxLen (init_state t l)
                          (zip cigarOps cigarCounts) of
                     Inl (e, l') \<Rightarrow> (Inl e, l')
                   | Inr s0 \<Rightarrow>
                       (let s = end_match s0;
                            t' = t\<lparr>CIGAR := newCIGAR s, SEQ := newSeq s\<rparr>
                        in case getNMandMDFlags cls t' genome of
                             Inl e \<Rightarrow> (Inl e, log s)
                           | Inr (nm, md) \<Rightarrow>
                               (Inr (t'\<lparr>NM := nm, MD := md\<rparr>, TE_entries s), log s))))"

subsection \<open>Mismatch correction\<close>

text \<open>\<^verbatim>\<open>xs[i]\<close>: a negative index counts from the end; out of range raises.\<close>

definition py_get :: "'a list \<Rightarrow> int \<Rightarrow> exn + 'a" where
  "py_get xs i =
     (let n = int (length xs); j = (if i < 0 then i + n else i)
      in if 0 \<le> j \<and> j < n then Inr (xs ! nat j) else Inl IndexError)"

text \<open>\<^verbatim>\<open>s.upper()\<close> on ASCII text.\<close>

definition py_upper :: "string \<Rightarrow> string" where
  "py_upper s =
     map (\<lambda>c. case map_of (zip ''abcdefghijklmnopqrstuvwxyz'' ''ABCDEFGHIJKLMNOPQRSTUVWXYZ'') c of
                 None \<Rightarrow> c | Some u \<Rightarrow> u) s"

text \<open>\<^verbatim>\<open>any(i in origMD.upper() for i in 'ACTGN')\<close>.\<close>

definition has_mismatch_bases :: "string \<Rightarrow> bool" where
  "has_mismatch_bases origMD = list_ex (\<lambda>i. i \<in> set (py_upper origMD)) ''ACTGN''"

definition mm_body ::
  "transcript \<Rightarrow> genome \<Rightarrow> (string \<rightharpoonup> string list) \<Rightarrow> corr_state \<Rightarrow> string \<times> int
     \<Rightarrow> exn \<times> logInfo + corr_state" where
  "mm_body t genome variants s opct =
     (let op = fst opct; ct = snd opct; origSeq = SEQ t;
          keep = (\<lambda>s'. (copy_bases origSeq ct s')
                   \<lparr>MVal := MVal s + ct, seqPos := seqPos s + ct, genomePos := genomePos s + ct\<rparr>);
          correct = (\<lambda>ID.
            (let s1 = log_entry [QNAME t, ID, ''Mismatch'', py_str ct, ''Corrected'', ''NA'']
                        (s\<lparr>log := (log s)\<lparr>corrected_mismatches :=
                                             incr (corrected_mismatches (log s))\<rparr>\<rparr>)
             in case genome (CHROM t) (genomePos s) (genomePos s + ct - 1) of
                  Inl e \<Rightarrow> Inl (e, log s1)
                | Inr refBases \<Rightarrow>
                    Inr (s1\<lparr>newSeq := newSeq s @ refBases, seqPos := seqPos s + ct,
                             genomePos := genomePos s + ct, MVal := MVal s + ct\<rparr>)))
      in
      if op = ''M'' then Inr (keep s)
      else if op = ''X'' then
        (let ID = CHROM t @ ''_'' @ py_str (genomePos s) in
         case variants ID of
           None \<Rightarrow> correct ID
         | Some alleles \<Rightarrow>
             (case py_get origSeq (seqPos s) of
                Inl e \<Rightarrow> Inl (e, log s)
              | Inr currBase \<Rightarrow>
                  if [currBase] \<in> set alleles then
                    Inr (keep (log_entry [QNAME t, ID, ''Mismatch'', py_str ct, ''Uncorrected'',
                                          ''VariantMatch'']
                                 (s\<lparr>log := (log s)\<lparr>uncorrected_mismatches :=
                                                      incr (uncorrected_mismatches (log s))\<rparr>\<rparr>)))
                  else correct ID))
      else if op \<in> set [''S'', ''I''] then
        Inr ((append_op ct op (copy_bases origSeq ct (end_match s)))\<lparr>seqPos := seqPos s + ct\<rparr>)
      else if op \<in> set [''N'', ''H'', ''D''] then
        Inr (append_op ct op ((end_match s)\<lparr>genomePos := genomePos s + ct\<rparr>))
      else Inr s)"

fun mm_loop ::
  "transcript \<Rightarrow> genome \<Rightarrow> (string \<rightharpoonup> string list) \<Rightarrow> corr_state \<Rightarrow> (string \<times> int) list
     \<Rightarrow> exn \<times> logInfo + corr_state" where
  "mm_loop t genome variants s [] = Inr s"
| "mm_loop t genome variants s (opct # rest) =
     (case mm_body t genome variants s opct of
        Inl e \<Rightarrow> Inl e
      | Inr s' \<Rightarrow> mm_loop t genome variants s' rest)"

text \<open>
  \<^verbatim>\<open>correctMismatches\<close>. A transcript whose MD tag holds none of the letters A, C, T,
  G, N (in either case) is returned before anything else is read.
\<close>

definition correctMismatches ::
  "classes \<Rightarrow> transcript \<Rightarrow> genome \<Rightarrow> (string \<rightharpoonup> string list) \<Rightarrow> logInfo
     \<Rightarrow> (exn + transcript \<times> string list) \<times> logInfo" where
  "correctMismatches cls t genome variants logInfo =
     (let l = logInfo\<lparr>uncorrected_mismatches := Some 0, corrected_mismatches := Some 0\<rparr>
      in if \<not> has_mismatch_bases (MD t) then (Inr (t, []), l)
         else (case mergeMDwithCIGAR cls t of
                 Inl e \<Rightarrow> (Inl e, l)
               | Inr (mergeOperations, mergeCounts) \<Rightarrow>
                   (case mm_loop t genome variants (init_state t l)
                           (zip mergeOperations mergeCounts) of
                      Inl (e, l') \<Rightarrow> (Inl e, l')
                    | Inr s0 \<Rightarrow>
                        (let s = end_match s0;
                             t' = t\<lparr>CIGAR := newCIGAR s, SEQ := newSeq s\<rparr>
                         in case getNMandMDFlags cls t' genome of
                              Inl e \<Rightarrow> (Inl e, log s)
                            | Inr (nm, md) \<Rightarrow>
                                (Inr (t'\<lparr>NM := nm, MD := md\<rparr>, TE_entries s), log s)))))"

subsection \<open>Splice junction correction: editing one side of a junction\<close>

text \<open>\<^verbatim>\<open>xs[i] = v\<close>: raises when the index is out of range.\<close>

definition py_set :: "'a list \<Rightarrow> int \<Rightarrow> 'a \<Rightarrow> exn + 'a list" where
  "py_set xs i v =
     (let n = int (length xs); j = (if i < 0 then i + n else i)
      in if 0 \<le> j \<and> j < n then Inr (xs[nat j := v]) else Inl IndexError)"

text \<open>
  \<^verbatim>\<open>group_CIGAR_by_exon_and_intron\<close>: the CIGAR of each exon, the length of each intron
  and the bases of each exon. There is always one exon more than there are introns.
\<close>

record group_state =
  currExonStr :: string
  currExonCIGAR :: string
  currSeqIndex :: int
  out_exonSeqs :: "string list"
  out_exonCIGARs :: "string list"
  out_intronCIGARs :: "int list"

definition group_body :: "string \<Rightarrow> group_state \<Rightarrow> string \<times> int \<Rightarrow> group_state" where
  "group_body seq g opct =
     (let op = fst opct; ct = snd opct in
      if op = ''N'' then
        g\<lparr>out_exonSeqs := out_exonSeqs g @ [currExonStr g],
          out_intronCIGARs := out_intronCIGARs g @ [ct],
          out_exonCIGARs := out_exonCIGARs g @ [currExonCIGAR g],
          currExonStr := [], currExonCIGAR := []\<rparr>
      else if op \<in> set [''M'', ''S'', ''I''] then
        g\<lparr>currExonStr := currExonStr g @ py_slice seq (currSeqIndex g) (currSeqIndex g + ct),
          currExonCIGAR := currExonCIGAR g @ py_str ct @ op,
          currSeqIndex := currSeqIndex g + ct\<rparr>
      else g\<lparr>currExonCIGAR := currExonCIGAR g @ py_str ct @ op\<rparr>)"

definition group_CIGAR_by_exon_and_intron ::
  "string \<Rightarrow> string \<Rightarrow> exn + string list \<times> int list \<times> string list" where
  "group_CIGAR_by_exon_and_intron cigar seq =
     (case splitCIGAR cigar of
        Inl e \<Rightarrow> Inl e
      | Inr (operations, counts) \<Rightarrow>
          (let g = foldl (group_body seq)
                     \<lparr>currExonStr = [], currExonCIGAR = [], currSeqIndex = 0, out_exonSeqs = [],
                      out_exonCIGARs = [], out_intronCIGARs = []\<rparr>
                     (zip operations counts)
           in Inr (out_exonCIGARs g @ [currExonCIGAR g], out_intronCIGARs g,
                   out_exonSeqs g @ [currExonStr g])))"

text \<open>
  \<^verbatim>\<open>editExonCIGAR\<close>. When bases are taken away, the loop overwrites the counts and
  operations it uses up with the empty string; a count is therefore a number or that empty
  string (\<open>None\<close>), written out as nothing.
\<close>

function editExon_loop ::
  "nat \<Rightarrow> int \<Rightarrow> string list \<Rightarrow> int option list \<Rightarrow> exn + string list \<times> int option list" where
  "editExon_loop i nBases operations counts =
     (if length counts \<le> i then Inr (operations, counts)
      else (let remainder = (case counts ! i of None \<Rightarrow> 0 | Some ct \<Rightarrow> ct) - \<bar>nBases\<bar> in
            if remainder > 0 then Inr (operations, counts[i := Some remainder])
            else if length operations \<le> i then Inl IndexError
            else if remainder = 0 then Inr (operations[i := []], counts[i := None])
            else editExon_loop (Suc i) remainder (operations[i := []]) (counts[i := None])))"
  by pat_completeness auto
termination
  by (relation "measure (\<lambda>(i, nBases, operations, counts). length counts - i)") auto

declare editExon_loop.simps [simp del]

definition count_text :: "int option \<Rightarrow> string" where
  "count_text c = (case c of None \<Rightarrow> [] | Some ct \<Rightarrow> py_str ct)"

definition editExonCIGAR :: "string \<Rightarrow> int \<Rightarrow> int \<Rightarrow> exn + string" where
  "editExonCIGAR exon side nBases =
     (case splitCIGAR exon of
        Inl e \<Rightarrow> Inl e
      | Inr (operations0, counts0) \<Rightarrow>
          (let operations = (if side = - 1 then rev operations0 else operations0);
               counts = map Some (if side = - 1 then rev counts0 else counts0);
               edited =
                 (if nBases \<ge> 0 then
                    (case operations of
                       [] \<Rightarrow> Inl IndexError
                     | op0 # _ \<Rightarrow>
                         if op0 = ''M'' then
                           (case counts of
                              [] \<Rightarrow> Inl IndexError
                            | c0 # cs \<Rightarrow> Inr (operations, map_option (\<lambda>ct. ct + nBases) c0 # cs))
                         else Inr (''M'' # operations, Some nBases # counts))
                  else editExon_loop 0 nBases operations counts)
           in case edited of
                Inl e \<Rightarrow> Inl e
              | Inr (operations1, counts1) \<Rightarrow>
                  (let operations2 = (if side = - 1 then rev operations1 else operations1);
                       counts2 = (if side = - 1 then rev counts1 else counts1)
                   in Inr (concat (map (\<lambda>(op, ct). count_text ct @ op)
                                     (zip operations2 counts2))))))"

text \<open>
  The new CIGAR of \<^verbatim>\<open>fix_one_side_of_junction\<close>: every exon but the last followed by
  its intron, then the last exon.
\<close>

definition paste_CIGAR :: "string list \<Rightarrow> int list \<Rightarrow> string" where
  "paste_CIGAR exonCIGARs intronCIGARs =
     concat (map (\<lambda>(e, i). e @ py_str i @ ''N'') (zip exonCIGARs intronCIGARs))
     @ last exonCIGARs"

definition edit_intron :: "int \<Rightarrow> int \<Rightarrow> int list \<Rightarrow> exn + int list" where
  "edit_intron jn_number change intronCIGARs =
     (case py_get intronCIGARs jn_number of
        Inl e \<Rightarrow> Inl e
      | Inr ic \<Rightarrow> py_set intronCIGARs jn_number (ic + change))"

definition edit_exon :: "int \<Rightarrow> int \<Rightarrow> int \<Rightarrow> string list \<Rightarrow> exn + string list" where
  "edit_exon targetExon side nBases exonCIGARs =
     (case py_get exonCIGARs targetExon of
        Inl e \<Rightarrow> Inl e
      | Inr ec \<Rightarrow>
          (case editExonCIGAR ec side nBases of
             Inl e \<Rightarrow> Inl e
           | Inr ec' \<Rightarrow> py_set exonCIGARs targetExon ec'))"

text \<open>
  What \<^verbatim>\<open>fix_one_side_of_junction\<close> does once the exon's bases are edited and the
  boundary is moved: the intron length and the exon CIGAR are edited (the intron first on
  the left side of an intron, the exon first on the right side), and the pieces are pasted.
\<close>

definition fix_rest ::
  "bool \<Rightarrow> int \<Rightarrow> int \<Rightarrow> int \<Rightarrow> int \<Rightarrow> int \<Rightarrow> string \<Rightarrow> string list \<Rightarrow> int list \<Rightarrow> string list
     \<Rightarrow> exn + string \<times> string" where
  "fix_rest intronFirst jn_number targetExon intronChange side nBases exon
            exonCIGARs intronCIGARs exonSeqs =
     (case py_set exonSeqs targetExon exon of
        Inl e \<Rightarrow> Inl e
      | Inr exonSeqs' \<Rightarrow>
          (case (if intronFirst then
                   (case edit_intron jn_number intronChange intronCIGARs of
                      Inl e \<Rightarrow> Inl e
                    | Inr intronCIGARs' \<Rightarrow>
                        (case edit_exon targetExon side nBases exonCIGARs of
                           Inl e \<Rightarrow> Inl e
                         | Inr exonCIGARs' \<Rightarrow> Inr (exonCIGARs', intronCIGARs')))
                 else
                   (case edit_exon targetExon side nBases exonCIGARs of
                      Inl e \<Rightarrow> Inl e
                    | Inr exonCIGARs' \<Rightarrow>
                        (case edit_intron jn_number intronChange intronCIGARs of
                           Inl e \<Rightarrow> Inl e
                         | Inr intronCIGARs' \<Rightarrow> Inr (exonCIGARs', intronCIGARs')))) of
             Inl e \<Rightarrow> Inl e
           | Inr (exonCIGARs', intronCIGARs') \<Rightarrow>
               Inr (concat exonSeqs', paste_CIGAR exonCIGARs' intronCIGARs')))"

text \<open>
  \<^verbatim>\<open>fix_one_side_of_junction\<close>. The function moves the boundary object it is given
  (\<^verbatim>\<open>intronBound.pos += d\<close>) before it edits the intron length and the exon CIGAR, so
  the result pairs what the call returns or raises with the boundary object as the call
  leaves it.
\<close>

definition fix_one_side_of_junction ::
  "string \<Rightarrow> int \<Rightarrow> int \<Rightarrow> intronBound \<Rightarrow> int \<Rightarrow> genome \<Rightarrow> string \<Rightarrow> string
     \<Rightarrow> (exn + string \<times> string) \<times> intronBound" where
  "fix_one_side_of_junction chrom transcript_start jn_number b d genome seq oldCIGAR =
     (if d = 0 then (Inr (seq, oldCIGAR), b)
      else case group_CIGAR_by_exon_and_intron oldCIGAR seq of
        Inl e \<Rightarrow> (Inl e, b)
      | Inr (exonCIGARs, intronCIGARs, exonSeqs) \<Rightarrow>
          if bound b = 0 then
            (let targetExon = jn_number in
             case py_get exonSeqs targetExon of
               Inl e \<Rightarrow> (Inl e, b)
             | Inr exon \<Rightarrow>
                 (case (if d > 0 then
                          (let exonEnd = pos b - 1 in
                           case genome chrom (exonEnd + 1) (exonEnd + d) of
                             Inl e \<Rightarrow> Inl e
                           | Inr refAdd \<Rightarrow> Inr (exon @ refAdd))
                        else Inr (py_slice exon 0 d)) of
                    Inl e \<Rightarrow> (Inl e, b)
                  | Inr exon' \<Rightarrow>
                      (fix_rest True jn_number targetExon (- d) (- 1) d exon'
                         exonCIGARs intronCIGARs exonSeqs,
                       b\<lparr>pos := pos b + d\<rparr>)))
          else
            (let targetExon = jn_number + 1 in
             case py_get exonSeqs targetExon of
               Inl e \<Rightarrow> (Inl e, b)
             | Inr exon \<Rightarrow>
                 (case (if d < 0 then
                          (let exonStart = pos b + 1 in
                           case genome chrom (exonStart - \<bar>d\<bar>) (exonStart - 1) of
                             Inl e \<Rightarrow> Inl e
                           | Inr refAdd \<Rightarrow> Inr (refAdd @ exon))
                        else Inr (py_slice_from exon d)) of
                    Inl e \<Rightarrow> (Inl e, b)
                  | Inr exon' \<Rightarrow>
                      (fix_rest False jn_number targetExon d 0 (- d) exon'
                         exonCIGARs intronCIGARs exonSeqs,
                       b\<lparr>pos := pos b + d\<rparr>))))"

subsection \<open>Splice junction correction: one junction, then all of them\<close>

text \<open>
  The splice reference. \<^verbatim>\<open>refs.donors\<close> and \<^verbatim>\<open>refs.acceptors\<close> are BedTool objects;
  all the file does with one is \<^verbatim>\<open>bed_pos.closest(ref_bounds, s=True, D="ref", t="first")[0]\<close>,
  so each is modelled by that query: from a boundary object to the fields of the row
  bedtools answers with, or the exception pybedtools raises.
\<close>

type_synonym ref_bounds = "intronBound \<Rightarrow> exn + string list"

record refs =
  r_genome :: genome
  r_snps :: "string \<rightharpoonup> string list"
  r_insertions :: "string \<rightharpoonup> string list"
  r_deletions :: "string \<rightharpoonup> int"
  r_donors :: ref_bounds
  r_acceptors :: ref_bounds
  r_sjAnnot :: "string set"

record closest_bound =
  cl_chrom :: string
  cl_start :: int
  cl_end :: int
  cl_dist :: int

definition find_closest_bound :: "intronBound \<Rightarrow> ref_bounds \<Rightarrow> exn + closest_bound" where
  "find_closest_bound sj_bound ref_bounds =
     (case ref_bounds sj_bound of
        Inl e \<Rightarrow> Inl e
      | Inr closest \<Rightarrow>
     (case py_get closest 6 of
        Inl e \<Rightarrow> Inl e
      | Inr c \<Rightarrow>
     (case py_get closest 7 of
        Inl e \<Rightarrow> Inl e
      | Inr f7 \<Rightarrow>
     (case py_int f7 of
        Inl e \<Rightarrow> Inl e
      | Inr s \<Rightarrow>
     (case py_get closest 8 of
        Inl e \<Rightarrow> Inl e
      | Inr f8 \<Rightarrow>
     (case py_int f8 of
        Inl e \<Rightarrow> Inl e
      | Inr en \<Rightarrow>
     (case py_get closest (- 1) of
        Inl e \<Rightarrow> Inl e
      | Inr fl \<Rightarrow>
     (case py_int fl of
        Inl e \<Rightarrow> Inl e
      | Inr d \<Rightarrow> Inr \<lparr>cl_chrom = c, cl_start = s, cl_end = en, cl_dist = d\<rparr>))))))))"

definition find_closest_ref_junction ::
  "spliceJunction \<Rightarrow> ref_bounds \<Rightarrow> ref_bounds \<Rightarrow> exn + closest_bound \<times> closest_bound" where
  "find_closest_ref_junction junction ref_donors ref_acceptors =
     (case find_closest_bound (jn_donor junction) ref_donors of
        Inl e \<Rightarrow> Inl e
      | Inr closest_ref_donor \<Rightarrow>
          (case find_closest_bound (jn_acceptor junction) ref_acceptors of
             Inl e \<Rightarrow> Inl e
           | Inr closest_ref_acceptor \<Rightarrow> Inr (closest_ref_donor, closest_ref_acceptor)))"

text \<open>
  The junction objects of a transcript form a store of their own: \<^verbatim>\<open>copy(transcript)\<close>
  is a shallow copy, so a transcript and its copies have separate attributes (the record
  \<^typ>\<open>transcript\<close>) and one and the same list of junction objects. Whatever a function does
  to a junction or to one of its boundary objects is done to that shared store, which the
  model passes along and returns, also when the function raises.
\<close>

definition update_post_ncsj_correction ::
  "classes \<Rightarrow> transcript \<Rightarrow> spliceJunction list \<Rightarrow> int \<Rightarrow> genome \<Rightarrow> string set
     \<Rightarrow> (exn + transcript) \<times> spliceJunction list" where
  "update_post_ncsj_correction cls t js splice_jn_num genome sjAnnot =
     (case py_get js splice_jn_num of
        Inl e \<Rightarrow> (Inl e, js)
      | Inr junction \<Rightarrow>
     (case recheckPosition cls junction of
        Inl e \<Rightarrow> (Inl e, js)
      | Inr j1 \<Rightarrow>
     (let js1 = js[nat splice_jn_num := j1] in
      case checkSpliceMotif cls j1 genome sjAnnot of
        Inl e \<Rightarrow> (Inl e, js1)
      | Inr j2 \<Rightarrow>
     (let js2 = js[nat splice_jn_num := j2] in
      case getNMandMDFlags cls t genome of
        Inl e \<Rightarrow> (Inl e, js2)
      | Inr (nm, md) \<Rightarrow>
     (let t1 = t\<lparr>NM := nm, MD := md\<rparr> in
      case get_jM_jI_tags_from_sjs cls t1 js2 of
        Inl e \<Rightarrow> (Inl e, js2)
      | Inr (m, i) \<Rightarrow>
     (let t2 = t1\<lparr>jM := m, jI := i\<rparr> in
      case recheckCanonical cls t2 js2 of
        Inl e \<Rightarrow> (Inl e, js2)
      | Inr c \<Rightarrow> (Inr (t2\<lparr>isCanonical := c\<rparr>), js2)))))))"

text \<open>
  \<^verbatim>\<open>attempt_jn_correction\<close> on the copy \<open>t\<close> and the shared junction store: the returned
  status, reason and distance with the copy as the call leaves it, or the exception of a
  failed lookup, which is outside the \<^verbatim>\<open>try\<close>. The bare \<^verbatim>\<open>except\<close> turns every
  exception of the two fixes and of the updates into the answer "Other".
\<close>

definition attempt_jn_correction ::
  "classes \<Rightarrow> transcript \<Rightarrow> spliceJunction list \<Rightarrow> int \<Rightarrow> genome \<Rightarrow> ref_bounds \<Rightarrow> ref_bounds
     \<Rightarrow> string set \<Rightarrow> int \<Rightarrow> (exn + transcript \<times> bool \<times> string \<times> int) \<times> spliceJunction list" where
  "attempt_jn_correction cls t js splice_jn_num genome ref_donors ref_acceptors sjAnnot maxDist =
     (case py_get js splice_jn_num of
        Inl e \<Rightarrow> (Inl e, js)
      | Inr junction \<Rightarrow>
     (case find_closest_ref_junction junction ref_donors ref_acceptors of
        Inl e \<Rightarrow> (Inl e, js)
      | Inr (ref_donor, ref_acceptor) \<Rightarrow>
     (let combined_dist = combinedJunctionDist (cl_dist ref_donor) (cl_dist ref_acceptor) in
      if combined_dist > maxDist \<or> \<bar>cl_dist ref_donor\<bar> > 2 * maxDist
           \<or> \<bar>cl_dist ref_acceptor\<bar> > 2 * maxDist
      then (Inr (t, False, ''TooFarFromAnnotJn'', combined_dist), js)
      else
        (let (r1, donor') = fix_one_side_of_junction (CHROM t) (POS t) splice_jn_num
                              (jn_donor junction) (cl_dist ref_donor) genome (SEQ t) (CIGAR t);
             js1 = js[nat splice_jn_num := junction\<lparr>jn_donor := donor'\<rparr>]
         in case r1 of
              Inl e \<Rightarrow> (Inr (t, False, ''Other'', combined_dist), js1)
            | Inr (seq1, cigar1) \<Rightarrow>
        (let t1 = t\<lparr>SEQ := seq1, CIGAR := cigar1\<rparr>;
             (r2, acceptor') = fix_one_side_of_junction (CHROM t1) (POS t1) splice_jn_num
                                 (jn_acceptor junction) (cl_dist ref_acceptor) genome
                                 (SEQ t1) (CIGAR t1);
             js2 = js[nat splice_jn_num :=
                        junction\<lparr>jn_donor := donor', jn_acceptor := acceptor'\<rparr>]
         in case r2 of
              Inl e \<Rightarrow> (Inr (t1, False, ''Other'', combined_dist), js2)
            | Inr (seq2, cigar2) \<Rightarrow>
        (let t2 = t1\<lparr>SEQ := seq2, CIGAR := cigar2\<rparr> in
         case update_post_ncsj_correction cls t2 js2 splice_jn_num genome sjAnnot of
           (Inl e, js3) \<Rightarrow> (Inr (t2, False, ''Other'', combined_dist), js3)
         | (Inr t3, js3) \<Rightarrow> (Inr (t3, True, ''NA'', combined_dist), js3)))))))"

text \<open>
  \<^verbatim>\<open>cleanNoncanonical\<close>: the variables of its loop, one iteration, and the loop over the
  junction numbers \<^verbatim>\<open>range(0, len(transcript.spliceJunctions))\<close>.
\<close>

record clean_state =
  cur_transcript :: transcript
  cur_junctions :: "spliceJunction list"
  clean_log :: logInfo
  clean_TE :: "string list"

definition clean_body ::
  "classes \<Rightarrow> refs \<Rightarrow> int \<Rightarrow> clean_state \<Rightarrow> nat \<Rightarrow> exn \<times> clean_state + clean_state" where
  "clean_body cls refs maxDist s splice_jn_num =
     (case py_get (cur_junctions s) (int splice_jn_num) of
        Inl e \<Rightarrow> Inl (e, s)
      | Inr junction \<Rightarrow>
          if jn_isCanonical junction then Inr s
          else
            (let temp_transcript = cur_transcript s;
                 ID = join ''_'' [jn_chrom junction, py_str (jn_start junction),
                                  py_str (jn_end junction)]
             in case attempt_jn_correction cls temp_transcript (cur_junctions s)
                       (int splice_jn_num) (r_genome refs) (r_donors refs) (r_acceptors refs)
                       (r_sjAnnot refs) maxDist of
                  (Inl e, js') \<Rightarrow> Inl (e, s\<lparr>cur_junctions := js'\<rparr>)
                | (Inr (temp', correction_status, reason, dist), js') \<Rightarrow>
                    (let t' = (if correction_status then temp' else cur_transcript s);
                         l = clean_log s;
                         l' = (if correction_status
                               then l\<lparr>corrected_NC_SJs := incr (corrected_NC_SJs l)\<rparr>
                               else l\<lparr>uncorrected_NC_SJs := incr (uncorrected_NC_SJs l)\<rparr>);
                         status = (if correction_status then ''Corrected'' else ''Uncorrected'')
                     in Inr \<lparr>cur_transcript = t', cur_junctions = js', clean_log = l',
                             clean_TE = clean_TE s @
                               [join tab [QNAME t', ID, ''NC_SJ_boundary'', py_str dist,
                                          status, reason]]\<rparr>)))"

fun clean_loop ::
  "classes \<Rightarrow> refs \<Rightarrow> int \<Rightarrow> clean_state \<Rightarrow> nat list \<Rightarrow> exn \<times> clean_state + clean_state" where
  "clean_loop cls refs maxDist s [] = Inr s"
| "clean_loop cls refs maxDist s (n # ns) =
     (case clean_body cls refs maxDist s n of
        Inl e \<Rightarrow> Inl e
      | Inr s' \<Rightarrow> clean_loop cls refs maxDist s' ns)"

definition cleanNoncanonical ::
  "classes \<Rightarrow> transcript \<Rightarrow> spliceJunction list \<Rightarrow> refs \<Rightarrow> int \<Rightarrow> logInfo
     \<Rightarrow> exn \<times> clean_state + clean_state" where
  "cleanNoncanonical cls t js refs maxDist logInfo =
     (let l = logInfo\<lparr>corrected_NC_SJs := Some 0, uncorrected_NC_SJs := Some 0\<rparr>;
          s = \<lparr>cur_transcript = t, cur_junctions = js, clean_log = l, clean_TE = []\<rparr>
      in if isCanonical t then Inr s
         else clean_loop cls refs maxDist s [0..<length js])"

subsection \<open>The orchestrator\<close>

text \<open>\<^verbatim>\<open>s.split('\t')\<close>: the pieces between separators; there is always at least one.\<close>

fun split_on :: "char \<Rightarrow> string \<Rightarrow> string \<Rightarrow> string list" where
  "split_on sep cur [] = [cur]"
| "split_on sep cur (c # cs) =
     (if c = sep then cur # split_on sep [] cs else split_on sep (cur @ [c]) cs)"

record options =
  mismatchCorrection :: string
  indelCorrection :: string
  sjCorrection :: string
  maxLenIndel :: int
  maxSJOffset :: int

text \<open>\<^verbatim>\<open>init_log_info\<close>: raises on a line with fewer than three fields or a flag that is no number.\<close>

definition init_log_info :: "string list \<Rightarrow> exn + logInfo" where
  "init_log_info sam_fields =
     (case py_get sam_fields 0 of
        Inl e \<Rightarrow> Inl e
      | Inr transcript_id \<Rightarrow>
     (case py_get sam_fields 1 of
        Inl e \<Rightarrow> Inl e
      | Inr f1 \<Rightarrow>
     (case py_int f1 of
        Inl e \<Rightarrow> Inl e
      | Inr flag \<Rightarrow>
     (case py_get sam_fields 2 of
        Inl e \<Rightarrow> Inl e
      | Inr chrom \<Rightarrow>
          Inr \<lparr>TranscriptID = transcript_id,
               Mapping = (if chrom = ''*'' \<or> flag = 4 then ''unmapped''
                          else if flag > 16 then ''non-primary'' else ''primary''),
               corrected_deletions = None, uncorrected_deletions = None,
               variant_deletions = None, corrected_insertions = None,
               uncorrected_insertions = None, variant_insertions = None,
               corrected_mismatches = None, uncorrected_mismatches = None,
               corrected_NC_SJs = None, uncorrected_NC_SJs = None\<rparr>))))"

text \<open>
  What \<^verbatim>\<open>correct_transcript\<close> returns: the transcript (or \<^verbatim>\<open>None\<close>), the log and
  the error-log entries; with them the junction objects of the transcript as the call leaves
  them, and the warnings the call issued with \<^verbatim>\<open>warnings.warn\<close>.
\<close>

record outcome =
  out_transcript :: "transcript option"
  out_junctions :: "spliceJunction list"
  out_logInfo :: logInfo
  out_TE :: "string list"
  out_warnings :: "string list"

text \<open>
  \<^verbatim>\<open>transcript_init\<close>: the log, then the Transcript object when the alignment is
  primary; a constructor that raises gives \<^verbatim>\<open>None\<close> and a warning.
\<close>

definition transcript_init ::
  "classes \<Rightarrow> string \<Rightarrow> genome \<Rightarrow> string set
     \<Rightarrow> exn + (transcript \<times> spliceJunction list) option \<times> logInfo \<times> string list" where
  "transcript_init cls transcript_line genome sjAnnot =
     (let sam_fields = split_on (CHR 0x09) [] transcript_line in
      case init_log_info sam_fields of
        Inl e \<Rightarrow> Inl e
      | Inr logInfo \<Rightarrow>
          if Mapping logInfo \<noteq> ''primary'' then Inr (None, logInfo, [])
          else (case new_Transcript cls sam_fields genome sjAnnot of
                  Inl e \<Rightarrow>
                    Inr (None, logInfo,
                         [''Problem parsing transcript with ID '' @ [CHR 0x27]
                          @ TranscriptID logInfo @ [CHR 0x27]])
                | Inr tj \<Rightarrow> Inr (Some tj, logInfo, [])))"

text \<open>
  The four stages inside the \<^verbatim>\<open>try\<close> of \<^verbatim>\<open>correct_transcript\<close>, in the order of the
  source. A stage gets the working copy, the junction store, the log and the entries so
  far; it gives them back updated, or the store and the log as they were when it raised
  (\<^verbatim>\<open>upd_logInfo\<close> is the caller's log object itself, not a copy).
\<close>

record stage_state =
  upd_transcript :: transcript
  st_junctions :: "spliceJunction list"
  upd_logInfo :: logInfo
  st_TE :: "string list"

type_synonym stage_result = "spliceJunction list \<times> logInfo + stage_state"

definition lift_stage ::
  "stage_state \<Rightarrow> (exn + transcript \<times> string list) \<times> logInfo \<Rightarrow> stage_result" where
  "lift_stage s r =
     (case r of
        (Inl e, l) \<Rightarrow> Inl (st_junctions s, l)
      | (Inr (t, te), l) \<Rightarrow>
          Inr (s\<lparr>upd_transcript := t, upd_logInfo := l, st_TE := st_TE s @ te\<rparr>))"

definition mismatch_stage :: "classes \<Rightarrow> options \<Rightarrow> refs \<Rightarrow> stage_state \<Rightarrow> stage_result" where
  "mismatch_stage cls opts refs s =
     (if mismatchCorrection opts = ''true''
      then lift_stage s (correctMismatches cls (upd_transcript s) (r_genome refs) (r_snps refs)
                           (upd_logInfo s))
      else Inr s)"

definition insertion_stage :: "options \<Rightarrow> refs \<Rightarrow> stage_state \<Rightarrow> stage_result" where
  "insertion_stage opts refs s =
     (if indelCorrection opts = ''true''
      then lift_stage s (correctInsertions (upd_transcript s) (r_insertions refs)
                           (maxLenIndel opts) (upd_logInfo s))
      else Inr s)"

definition deletion_stage :: "classes \<Rightarrow> options \<Rightarrow> refs \<Rightarrow> stage_state \<Rightarrow> stage_result" where
  "deletion_stage cls opts refs s =
     (if indelCorrection opts = ''true''
      then lift_stage s (correctDeletions cls (upd_transcript s) (r_genome refs)
                           (r_deletions refs) (maxLenIndel opts) (upd_logInfo s))
      else Inr s)"

definition junction_stage :: "classes \<Rightarrow> options \<Rightarrow> refs \<Rightarrow> stage_state \<Rightarrow> stage_result" where
  "junction_stage cls opts refs s =
     (if r_sjAnnot refs \<noteq> {} \<and> sjCorrection opts = ''true''
      then (case cleanNoncanonical cls (upd_transcript s) (st_junctions s) refs
                   (maxSJOffset opts) (upd_logInfo s) of
              Inl (e, c) \<Rightarrow> Inl (cur_junctions c, clean_log c)
            | Inr c \<Rightarrow>
                Inr \<lparr>upd_transcript = cur_transcript c, st_junctions = cur_junctions c,
                     upd_logInfo = clean_log c, st_TE = st_TE s @ clean_TE c\<rparr>)
      else Inr s)"

definition then_stage :: "stage_result \<Rightarrow> (stage_state \<Rightarrow> stage_result) \<Rightarrow> stage_result" where
  "then_stage r f = (case r of Inl x \<Rightarrow> Inl x | Inr s \<Rightarrow> f s)"

definition run_stages :: "classes \<Rightarrow> options \<Rightarrow> refs \<Rightarrow> stage_state \<Rightarrow> stage_result" where
  "run_stages cls opts refs s =
     then_stage (then_stage (then_stage (mismatch_stage cls opts refs s)
                                        (insertion_stage opts refs))
                            (deletion_stage cls opts refs))
                (junction_stage cls opts refs)"

text \<open>
  \<^verbatim>\<open>correct_transcript\<close>. Only \<^verbatim>\<open>transcript_init\<close> is outside the \<^verbatim>\<open>try\<close>. When a
  stage raises, the handler warns, empties the error-log entries and returns
  \<^verbatim>\<open>orig_transcript\<close> with the log object.
\<close>

definition correct_transcript :: "classes \<Rightarrow> string \<Rightarrow> options \<Rightarrow> refs \<Rightarrow> exn + outcome" where
  "correct_transcript cls transcript_line opts refs =
     (case transcript_init cls transcript_line (r_genome refs) (r_sjAnnot refs) of
        Inl e \<Rightarrow> Inl e
      | Inr (None, logInfo, ws) \<Rightarrow>
          Inr \<lparr>out_transcript = None, out_junctions = [], out_logInfo = logInfo,
               out_TE = [], out_warnings = ws\<rparr>
      | Inr (Some (orig_transcript, js), logInfo, ws) \<Rightarrow>
          (case run_stages cls opts refs
                  \<lparr>upd_transcript = orig_transcript, st_junctions = js,
                   upd_logInfo = logInfo, st_TE = []\<rparr> of
             Inl (js', l') \<Rightarrow>
               Inr \<lparr>out_transcript = Some orig_transcript, out_junctions = js',
                    out_logInfo = l', out_TE = [],
                    out_warnings = ws @
                      [''Problem encountered while correcting transcript with ID ''
                       @ QNAME orig_transcript @ ''. Will output original version.'']\<rparr>
           | Inr s \<Rightarrow>
               Inr \<lparr>out_transcript = Some (upd_transcript s), out_junctions = st_junctions s,
                    out_logInfo = upd_logInfo s, out_TE = st_TE s, out_warnings = ws\<rparr>))"

subsection \<open>Spans of a list of operations\<close>

text \<open>
  Bases of the read and positions of the genome that a list of operations spans in the
  loop of \<^verbatim>\<open>correctInsertions\<close>, insertions aside: \<^verbatim>\<open>M\<close> and \<^verbatim>\<open>S\<close> take bases of
  the read; \<^verbatim>\<open>M\<close>, \<^verbatim>\<open>N\<close>, \<^verbatim>\<open>H\<close> and \<^verbatim>\<open>D\<close> advance the genome position.
\<close>

definition read_span :: "string list \<Rightarrow> (string \<times> int) list \<Rightarrow> int" where
  "read_span kinds ops = sum_list (map snd (filter (\<lambda>opct. fst opct \<in> set kinds) ops))"

subsection \<open>Example records\<close>

text \<open>
  A log as \<^verbatim>\<open>init_log_info\<close> makes it, and a read with one insertion: five matches,
  two inserted bases, five matches.
\<close>

definition ex_log :: logInfo where
  "ex_log = \<lparr>TranscriptID = ''read1'', Mapping = ''primary'', corrected_deletions = None,
     uncorrected_deletions = None, variant_deletions = None, corrected_insertions = None,
     uncorrected_insertions = None, variant_insertions = None, corrected_mismatches = None,
     uncorrected_mismatches = None, corrected_NC_SJs = None, uncorrected_NC_SJs = None\<rparr>"



definition ex_genome :: genome where
  "ex_genome c a b =
     (if c = ''chr1'' \<and> a = 110 \<and> b = 111 then Inr ''GT'' else Inl (Raised ''no such span''))"

definition ex_classes :: classes where
  "ex_classes =
     \<lparr>new_Transcript = (\<lambda>sam_fields genome sjAnnot. Inl (Raised ''not a SAM line'')),
      mergeMDwithCIGAR = (\<lambda>t. Inl (Raised ''no MD tag'')),
      getNMandMDFlags = (\<lambda>t genome. Inr (0, ''22'')),
      get_jM_jI_tags_from_sjs = (\<lambda>t js. Inr ([], [])),
      recheckCanonical = (\<lambda>t js. Inr (list_all jn_isCanonical js)),
      recheckPosition = (\<lambda>j. Inr j),
      checkSpliceMotif = (\<lambda>j genome sjAnnot. Inr j)\<rparr>"

text \<open>
  A spliced read on the forward strand: an exon of five matches, two deleted bases and
  three matches, an intron of 100 bases, an exon of five matches. Its junction is
  noncanonical; the donor boundary is the first base of the intron, the acceptor boundary
  the last.
\<close>

definition ex_sj :: transcript where
  "ex_sj = \<lparr>QNAME = ''read2'', CHROM = ''chr1'', POS = 100, SEQ = ''AAAAATTTCCCCC'',
     CIGAR = ''5M2D3M100N5M'', NM = 2, MD = ''5^GG8'', jM = ''jM:B:c,0'', jI = ''jI:B:i,110,209'',
     isCanonical = False\<rparr>"

definition ex_jn :: spliceJunction where
  "ex_jn = \<lparr>jn_chrom = ''chr1'', jn_start = 110, jn_end = 209, jn_isCanonical = False,
     jn_donor = \<lparr>pos = 110, bound = 0\<rparr>, jn_acceptor = \<lparr>pos = 209, bound = 1\<rparr>\<rparr>"

text \<open>
  A splice reference whose nearest annotated boundary lies \<open>d\<close> bases from the boundary
  asked about: the row has the six fields of the boundary, the six fields of the annotated
  boundary and the signed distance.
\<close>

definition ex_bed :: "int \<Rightarrow> ref_bounds" where
  "ex_bed d b = Inr [''chr1'', py_str (pos b - 1), py_str (pos b), ''.'', ''name'', ''+'',
                     ''chr1'', py_str (pos b + d - 1), py_str (pos b + d), ''.'', ''name'', ''+'',
                     py_str d]"

definition ex_refs :: "int \<Rightarrow> int \<Rightarrow> refs" where
  "ex_refs d0 d1 =
     \<lparr>r_genome = ex_genome, r_snps = Map.empty, r_insertions = Map.empty,
      r_deletions = Map.empty, r_donors = ex_bed d0, r_acceptors = ex_bed d1,
      r_sjAnnot = {''chr1_106_+,chr1_209_+''}\<rparr>"

text \<open>
  Classes as the file expects them to behave. The tag method walks the sequence along the
  CIGAR, so it raises \<open>IndexError\<close> when the CIGAR spans more bases than the sequence has;
  \<^verbatim>\<open>recheckPosition\<close> sets the junction's start and end from its boundary objects.
\<close>

definition ex_tags :: "transcript \<Rightarrow> genome \<Rightarrow> exn + int \<times> string" where
  "ex_tags t genome =
     (case splitCIGAR (CIGAR t) of
        Inl e \<Rightarrow> Inl e
      | Inr (operations, counts) \<Rightarrow>
          if int (length (SEQ t)) < read_span [''M'', ''I'', ''S''] (zip operations counts)
          then Inl IndexError
          else Inr (0, py_str (read_span [''M''] (zip operations counts))))"

definition ex_classes_strict :: classes where
  "ex_classes_strict =
     ex_classes\<lparr>getNMandMDFlags := ex_tags,
                recheckPosition := (\<lambda>j. Inr (j\<lparr>jn_start := pos (jn_donor j),
                                              jn_end := pos (jn_acceptor j)\<rparr>))\<rparr>"

text \<open>
  A read with two noncanonical junctions, given as a SAM line, and a splice reference whose
  lookup answers for the first donor and fails for every other one.
\<close>

definition ex_sj2 :: transcript where
  "ex_sj2 = \<lparr>QNAME = ''read3'', CHROM = ''chr1'', POS = 100, SEQ = ''AAAAATTTCCCCCGGGGG'',
     CIGAR = ''5M2D3M100N5M50N5M'', NM = 2, MD = ''5^GG13'', jM = ''jM:B:c,0,0'',
     jI = ''jI:B:i,110,209,215,264'', isCanonical = False\<rparr>"

definition ex_jn2 :: spliceJunction where
  "ex_jn2 = \<lparr>jn_chrom = ''chr1'', jn_start = 215, jn_end = 264, jn_isCanonical = False,
     jn_donor = \<lparr>pos = 215, bound = 0\<rparr>, jn_acceptor = \<lparr>pos = 264, bound = 1\<rparr>\<rparr>"

definition ex_line :: string where
  "ex_line = join tab [''read3'', ''0'', ''chr1'', ''100'', ''255'', ''5M2D3M100N5M50N5M'',
                       ''*'', ''0'', ''0'', ''AAAAATTTCCCCCGGGGG'', ''*'']"

definition ex_classes_two :: classes where
  "ex_classes_two =
     ex_classes_strict\<lparr>new_Transcript :=
       (\<lambda>sam_fields genome sjAnnot. Inr (ex_sj2, [ex_jn, ex_jn2]))\<rparr>"

definition ex_refs_failing :: refs where
  "ex_refs_failing =
     (ex_refs (- 1) 0)\<lparr>r_donors :=
       (\<lambda>b. if pos b = 110 then ex_bed (- 1) b else Inl (Raised ''bedtools closest failed''))\<rparr>"

definition ex_options :: options where
  "ex_options = \<lparr>mismatchCorrection = ''false'', indelCorrection = ''false'',
     sjCorrection = ''true'', maxLenIndel = 5, maxSJOffset = 5\<rparr>"

section \<open>Verified properties\<close>

subsection \<open>Numbers and CIGAR text read back as written\<close>

lemma digit_char_cases: "d < 10 \<Longrightarrow> d = 0 \<or> d = 1 \<or> d = 2 \<or> d = 3 \<or> d = 4 \<or> d = 5 \<or> d = 6 \<or> d = 7 \<or> d = 8 \<or> d = (9::nat)"
  by arith

lemma is_digit_digit_char: "d < 10 \<Longrightarrow> is_digit (digit_char d)"
  using digit_char_cases [of d] by (auto simp: is_digit_def digit_char_def)

lemma digit_val_digit_char: "d < 10 \<Longrightarrow> digit_val (digit_char d) = int d"
  using digit_char_cases [of d] by (auto simp: digit_val_def digit_char_def)

lemma is_digit_not_upper: "is_digit c \<Longrightarrow> \<not> is_upper c"
  by (auto simp: is_digit_def is_upper_def)

lemma is_digit_not_space: "is_digit c \<Longrightarrow> \<not> py_isspace c"
  by (auto simp: is_digit_def py_isspace_def)

lemma is_upper_not_space: "is_upper c \<Longrightarrow> \<not> py_isspace c"
  by (auto simp: is_upper_def py_isspace_def)

lemma is_digit_not_sign: "is_digit c \<Longrightarrow> c \<noteq> CHR ''-'' \<and> c \<noteq> CHR ''+'' \<and> c \<noteq> CHR ''_''"
  by (auto simp: is_digit_def)

lemma str_nat_digits: "list_all is_digit (str_nat n)"
  by (induction n rule: str_nat.induct) (subst str_nat.simps, simp add: is_digit_digit_char)

lemma str_nat_nonempty: "str_nat n \<noteq> []"
  by (subst str_nat.simps) simp

lemma foldl_digits_snoc:
  "foldl (\<lambda>a c. 10 * a + digit_val c) 0 (xs @ [c]) = 10 * foldl (\<lambda>a c. 10 * a + digit_val c) 0 xs + digit_val c"
  by simp

lemma filter_all_digits: "list_all is_digit s \<Longrightarrow> filter is_digit s = s"
  by (induction s) auto

lemma digits_val_str_nat: "digits_val (str_nat n) = int n"
proof (induction n rule: str_nat.induct)
  case (1 n)
  show ?case
  proof (cases "n < 10")
    case True
    then show ?thesis
      by (subst str_nat.simps) (simp add: digits_val_def is_digit_digit_char digit_val_digit_char)
  next
    case False
    have d: "list_all is_digit (str_nat (n div 10) @ [digit_char (n mod 10)])"
      by (simp add: str_nat_digits is_digit_digit_char)
    have "digits_val (str_nat n) = 10 * digits_val (str_nat (n div 10)) + digit_val (digit_char (n mod 10))"
      using False d
      by (subst str_nat.simps) (simp add: digits_val_def filter_all_digits str_nat_digits is_digit_digit_char)
    also have "\<dots> = 10 * int (n div 10) + int (n mod 10)"
      using 1 False by (simp add: digit_val_digit_char)
    also have "\<dots> = int n" by presburger
    finally show ?thesis .
  qed
qed

lemma int_body_digits: "list_all is_digit s \<Longrightarrow> s \<noteq> [] \<or> d \<Longrightarrow> int_body d s"
  by (induction s arbitrary: d) auto

lemma py_strip_digits: "list_all is_digit s \<Longrightarrow> py_strip s = s"
proof -
  assume d: "list_all is_digit s"
  have keep: "dropWhile py_isspace xs = xs" if "list_all is_digit xs" for xs
    using that by (cases xs) (auto simp: is_digit_not_space)
  have "list_all is_digit (rev s)" using d by (simp add: list_all_iff)
  then show ?thesis using d by (simp add: py_strip_def keep)
qed

lemma py_int_str_nat: "py_int (str_nat n) = Inr (int n)"
proof -
  obtain c r where cr: "str_nat n = c # r"
    using str_nat_nonempty [of n] by (cases "str_nat n") auto
  have "is_digit c" using str_nat_digits [of n] cr by simp
  then have ns: "c \<noteq> CHR ''-''" "c \<noteq> CHR ''+''" using is_digit_not_sign by auto
  have "int_body False (str_nat n)"
    by (rule int_body_digits) (simp_all add: str_nat_digits str_nat_nonempty)
  moreover have "py_strip (c # r) = c # r"
    using py_strip_digits [OF str_nat_digits, of n] cr by simp
  ultimately show ?thesis
    using cr ns digits_val_str_nat [of n] by (simp add: py_int_def)
qed

lemma py_int_py_str: "0 \<le> i \<Longrightarrow> py_int (py_str i) = Inr i"
  by (simp add: py_str_def py_int_str_nat)




text \<open>Operation letters: leading digits become blanks and are skipped.\<close>

lemma split_types_digits:
  "list_all is_digit ds \<Longrightarrow>
   split_ws [] (re_sub is_digit (ds @ xs)) = split_ws [] (re_sub is_digit xs)"
  by (induction ds) (auto simp: re_sub_def py_isspace_def)

lemma cigar_text_Nil [simp]: "cigar_text [] = []"
  by (simp add: cigar_text_def)

lemma cigar_text_Cons: "cigar_text ((op, ct) # ops) = py_str ct @ op @ cigar_text ops"
  by (simp add: cigar_text_def)

lemma py_str_nonneg: "0 \<le> ct \<Longrightarrow> py_str ct = str_nat (nat ct)"
  by (simp add: py_str_def)

lemma wf_cigar_Cons: "wf_cigar ((op, ct) # ops) = (0 \<le> ct \<and> (\<exists>c. op = [c] \<and> is_upper c) \<and> wf_cigar ops)"
  by (auto simp: wf_cigar_def split: list.splits)

lemma cigar_text_starts:
  "wf_cigar ops \<Longrightarrow> cigar_text ops = [] \<or> (\<exists>d r. cigar_text ops = d # r \<and> is_digit d)"
proof (cases ops)
  case Nil
  then show ?thesis by simp
next
  case (Cons p ps)
  obtain op ct where p: "p = (op, ct)" by (cases p)
  assume "wf_cigar ops"
  then have ct: "0 \<le> ct" using Cons p by (simp add: wf_cigar_Cons)
  obtain d r where dr: "str_nat (nat ct) = d # r"
    using str_nat_nonempty [of "nat ct"] by (cases "str_nat (nat ct)") auto
  then have "is_digit d" using str_nat_digits [of "nat ct"] by simp
  then show ?thesis using Cons p ct dr by (simp add: cigar_text_Cons py_str_nonneg)
qed

lemma split_types_letter:
  assumes "\<not> is_digit c" "\<not> py_isspace c"
    and "xs = [] \<or> (\<exists>d r. xs = d # r \<and> is_digit d)"
  shows "split_ws [] (re_sub is_digit (c # xs)) = [c] # split_ws [] (re_sub is_digit xs)"
  using assms by (auto simp: re_sub_def py_isspace_def)

lemma split_types_cigar_text:
  "wf_cigar ops \<Longrightarrow> py_split (re_sub is_digit (cigar_text ops)) = map fst ops"
proof (induction ops)
  case Nil
  then show ?case by (simp add: py_split_def re_sub_def)
next
  case (Cons p ops)
  obtain op ct where p: "p = (op, ct)" by (cases p)
  from Cons.prems p obtain c where c: "op = [c]" "is_upper c" and ct: "0 \<le> ct" and wf: "wf_cigar ops"
    by (auto simp: wf_cigar_Cons)
  have nd: "\<not> is_digit c" using c is_digit_not_upper by blast
  have ns: "\<not> py_isspace c" using c is_upper_not_space by blast
  have "split_ws [] (re_sub is_digit (cigar_text (p # ops)))
        = split_ws [] (re_sub is_digit (c # cigar_text ops))"
    using p c ct by (simp add: cigar_text_Cons py_str_nonneg split_types_digits str_nat_digits)
  also have "\<dots> = [c] # split_ws [] (re_sub is_digit (cigar_text ops))"
    by (rule split_types_letter [OF nd ns cigar_text_starts [OF wf]])
  finally show ?case using Cons.IH [OF wf] p c by (simp add: py_split_def)
qed

text \<open>Counts: the digits of a count are kept, the letter after them becomes a blank.\<close>

lemma split_counts_digits:
  "list_all is_digit ds \<Longrightarrow>
   split_ws cur (re_sub is_upper (ds @ xs)) = split_ws (cur @ ds) (re_sub is_upper xs)"
proof (induction ds arbitrary: cur)
  case Nil
  then show ?case by simp
next
  case (Cons d ds)
  then have "\<not> is_upper d" "\<not> py_isspace d"
    using is_digit_not_upper is_digit_not_space by auto
  then show ?case using Cons by (simp add: re_sub_def)
qed

lemma split_counts_cigar_text:
  "wf_cigar ops \<Longrightarrow>
   py_split (re_sub is_upper (cigar_text ops)) = map (\<lambda>(op, ct). py_str ct) ops"
proof (induction ops)
  case Nil
  then show ?case by (simp add: py_split_def re_sub_def)
next
  case (Cons p ops)
  obtain op ct where p: "p = (op, ct)" by (cases p)
  from Cons.prems p obtain c where c: "op = [c]" "is_upper c" and ct: "0 \<le> ct" and wf: "wf_cigar ops"
    by (auto simp: wf_cigar_Cons)
  have "split_ws [] (re_sub is_upper (cigar_text (p # ops)))
        = split_ws (str_nat (nat ct)) (re_sub is_upper (c # cigar_text ops))"
    using p c ct by (simp add: cigar_text_Cons py_str_nonneg split_counts_digits str_nat_digits)
  also have "\<dots> = str_nat (nat ct) # split_ws [] (re_sub is_upper (cigar_text ops))"
    using c str_nat_nonempty [of "nat ct"] by (simp add: re_sub_def py_isspace_def)
  finally show ?case using Cons.IH [OF wf] p ct by (simp add: py_split_def py_str_nonneg)
qed

lemma int_list_py_str:
  "wf_cigar ops \<Longrightarrow> int_list (map (\<lambda>(op, ct). py_str ct) ops) = Inr (map snd ops)"
proof (induction ops)
  case Nil
  then show ?case by simp
next
  case (Cons p ops)
  obtain op ct where p: "p = (op, ct)" by (cases p)
  from Cons.prems p have ct: "0 \<le> ct" and wf: "wf_cigar ops"
    by (auto simp: wf_cigar_Cons)
  show ?case using Cons.IH [OF wf] p ct by (simp add: py_int_py_str)
qed

lemma splitCIGAR_cigar_text:
  "wf_cigar ops \<Longrightarrow> splitCIGAR (cigar_text ops) = Inr (map fst ops, map snd ops)"
  by (simp add: splitCIGAR_def split_types_cigar_text split_counts_cigar_text int_list_py_str)

lemma zip_fst_snd: "zip (map fst ops) (map snd ops) = ops"
  by (induction ops) auto

lemma str_nat_no_minus: "CHR ''-'' \<notin> set (str_nat n)"
proof
  assume "CHR ''-'' \<in> set (str_nat n)"
  then have "is_digit CHR ''-''" using str_nat_digits [of n] by (simp add: list_all_iff)
  then show False by (simp add: is_digit_def)
qed

lemma cigar_text_no_minus: "wf_cigar ops \<Longrightarrow> CHR ''-'' \<notin> set (cigar_text ops)"
proof (induction ops)
  case Nil
  then show ?case by simp
next
  case (Cons p ops)
  obtain op ct where p: "p = (op, ct)" by (cases p)
  from Cons.prems p obtain c where c: "op = [c]" "is_upper c" and ct: "0 \<le> ct" and wf: "wf_cigar ops"
    by (auto simp: wf_cigar_Cons)
  have "c \<noteq> CHR ''-''" using c by (auto simp: is_upper_def)
  then show ?case using Cons.IH [OF wf] p c ct
    by (simp add: cigar_text_Cons py_str_nonneg str_nat_no_minus)
qed

subsection \<open>The CIGAR validator\<close>

lemma validity_loop_patterns:
  "validity_loop prev ops =
     (\<not> deletion_then_skip (prev # map fst ops) \<and> \<not> skip_then_other (prev # map fst ops))"
  by (induction prev ops rule: validity_loop.induct) auto

lemma patterns_drop_start:
  "deletion_then_skip ([] # xs) = deletion_then_skip xs"
  "skip_then_other ([] # xs) = skip_then_other xs"
  by (cases xs; simp)+

text \<open>
  Claim C8, as amended. For every well-formed CIGAR the validator returns, and its answer
  is \<open>False\<close> exactly when the CIGAR has a Skip immediately preceded by a Deletion or a
  Skip immediately followed by an operation other than Match. A Skip that ends the CIGAR
  is followed by nothing and passes.
\<close>

theorem check_CIGAR_validity_patterns:
  "wf_cigar ops \<Longrightarrow>
   check_CIGAR_validity (cigar_text ops) =
     Inr (\<not> deletion_then_skip (map fst ops) \<and> \<not> skip_then_other (map fst ops))"
  by (simp add: check_CIGAR_validity_def cigar_text_no_minus splitCIGAR_cigar_text zip_fst_snd
      validity_loop_patterns patterns_drop_start)

theorem check_CIGAR_validity_patterns_witness:
  "wf_cigar [(''M'', 10), (''D'', 2), (''N'', 5), (''M'', 10)]
   \<and> check_CIGAR_validity (cigar_text [(''M'', 10), (''D'', 2), (''N'', 5), (''M'', 10)]) = Inr False
   \<and> wf_cigar [(''M'', 10), (''N'', 5), (''M'', 10)]
   \<and> check_CIGAR_validity (cigar_text [(''M'', 10), (''N'', 5), (''M'', 10)]) = Inr True"
  using check_CIGAR_validity_patterns [of "[(''M'', 10), (''D'', 2), (''N'', 5), (''M'', 10)]"]
    check_CIGAR_validity_patterns [of "[(''M'', 10), (''N'', 5), (''M'', 10)]"]
  by (simp add: wf_cigar_def is_upper_def)

text \<open>
  The claim as the specification words it fails: \<^verbatim>\<open>10M5N\<close> has a Skip that no Match
  follows, and the validator accepts it.
\<close>

theorem check_CIGAR_validity_trailing_skip:
  "skip_without_match [''M'', ''N''] \<and> cigar_text [(''M'', 10), (''N'', 5)] = ''10M5N''
   \<and> check_CIGAR_validity ''10M5N'' = Inr True"
  by (simp add: check_CIGAR_validity_def splitCIGAR_def py_split_def re_sub_def is_digit_def
      is_upper_def py_isspace_def py_int_def py_strip_def digits_val_def digit_val_def
      cigar_text_def py_str_def str_nat.simps digit_char_def)

subsection \<open>Combined junction distance\<close>

lemma mult_nonpos_iff_signs:
  "(a * b \<le> 0) = ((a < 0 \<and> 0 < b) \<or> (0 < a \<and> b < 0) \<or> a = 0 \<or> b = 0)" for a b :: int
  by (auto simp: mult_le_0_iff)

text \<open>
  Claim C1. For all integer offsets \<open>d0\<close> and \<open>d1\<close>: when the two have different
  signs or one of them is zero, \<open>combinedJunctionDist d0 d1\<close> is \<open>|d0| + |d1|\<close>;
  when they share a sign it is \<open>||d0| - |d1||\<close>. In particular the three values of
  the docstring: \<open>(+2, -2)\<close> gives 4, \<open>(0, +2)\<close> gives 2 and \<open>(+1, +4)\<close> gives 3.
\<close>

theorem combinedJunctionDist_cases:
  "combinedJunctionDist d0 d1 =
     (if (d0 < 0 \<and> 0 < d1) \<or> (0 < d0 \<and> d1 < 0) \<or> d0 = 0 \<or> d1 = 0
      then \<bar>d0\<bar> + \<bar>d1\<bar> else \<bar>\<bar>d0\<bar> - \<bar>d1\<bar>\<bar>)
   \<and> combinedJunctionDist 2 (- 2) = 4
   \<and> combinedJunctionDist 0 2 = 2
   \<and> combinedJunctionDist 1 4 = 3"
  unfolding combinedJunctionDist_def mult_nonpos_iff_signs by simp

text \<open>
  Claim C10. \<open>combinedJunctionDist\<close> is commutative.
\<close>

theorem combinedJunctionDist_commute:
  "combinedJunctionDist d0 d1 = combinedJunctionDist d1 d0"
  unfolding combinedJunctionDist_def by (simp add: mult.commute abs_minus_commute add.commute)

subsection \<open>Slices\<close>



lemma py_slice_empty [simp]: "py_slice xs a a = []"
  by (simp add: py_slice_def Let_def)



subsection \<open>The insertion loop\<close>

lemma ins_loop_Nil [simp]: "ins_loop t v m s [] = s"
  by (simp add: ins_loop_def)

lemma ins_loop_Cons [simp]:
  "ins_loop t v m s (x # xs) = ins_loop t v m (ins_body t v m s x) xs"
  by (simp add: ins_loop_def)


lemma read_span_Nil [simp]: "read_span ks [] = 0"
  by (simp add: read_span_def)

lemma read_span_Cons:
  "read_span ks ((op, ct) # xs) = (if op \<in> set ks then ct else 0) + read_span ks xs"
  by (simp add: read_span_def)

lemma read_span_append [simp]: "read_span ks (xs @ ys) = read_span ks xs + read_span ks ys"
  by (simp add: read_span_def)


lemma end_match_fields [simp]:
  "newSeq (end_match s) = newSeq s" "seqPos (end_match s) = seqPos s"
  "genomePos (end_match s) = genomePos s" "TE_entries (end_match s) = TE_entries s"
  "log (end_match s) = log s"
  by (simp_all add: end_match_def endMatch_def)



subsection \<open>Insertion correction\<close>








lemma init_state_fields [simp]:
  "newCIGAR (init_state t l) = []" "newSeq (init_state t l) = []" "seqPos (init_state t l) = 0"
  "genomePos (init_state t l) = POS t" "MVal (init_state t l) = 0"
  "TE_entries (init_state t l) = []" "log (init_state t l) = l"
  by (simp_all add: init_state_def)


subsection \<open>Runs beyond the size bound\<close>




subsection \<open>The indel theorems at the example read\<close>





subsection \<open>Deletion correction\<close>











subsection \<open>Junctions too far from an annotated junction\<close>

text \<open>
  Claim C7. Take a noncanonical junction whose nearest annotated donor and acceptor were
  found. When the combined offset exceeds the maximum offset, or the magnitude of the donor
  offset or of the acceptor offset exceeds twice the maximum, the attempt answers
  uncorrected with reason "TooFarFromAnnotJn" and leaves the copy and every junction
  object as they were; the iteration of \<^verbatim>\<open>cleanNoncanonical\<close> then keeps the transcript and
  the junction objects, counts one uncorrected junction and logs one entry with that reason.
\<close>

theorem too_far_left_unmodified:
  assumes jn: "py_get js (int n) = Inr junction"
    and found: "find_closest_ref_junction junction (r_donors refs) (r_acceptors refs)
                = Inr (ref_donor, ref_acceptor)"
    and far: "combinedJunctionDist (cl_dist ref_donor) (cl_dist ref_acceptor) > maxDist
              \<or> \<bar>cl_dist ref_donor\<bar> > 2 * maxDist \<or> \<bar>cl_dist ref_acceptor\<bar> > 2 * maxDist"
    and nc: "\<not> jn_isCanonical junction"
    and s: "cur_junctions s = js"
  shows "attempt_jn_correction cls t js (int n) (r_genome refs) (r_donors refs)
           (r_acceptors refs) (r_sjAnnot refs) maxDist
         = (Inr (t, False, ''TooFarFromAnnotJn'',
                 combinedJunctionDist (cl_dist ref_donor) (cl_dist ref_acceptor)), js)
       \<and> clean_body cls refs maxDist s n
         = Inr (s\<lparr>clean_log := (clean_log s)\<lparr>uncorrected_NC_SJs :=
                                   incr (uncorrected_NC_SJs (clean_log s))\<rparr>,
                  clean_TE := clean_TE s @
                    [join tab [QNAME (cur_transcript s),
                               join ''_'' [jn_chrom junction, py_str (jn_start junction),
                                           py_str (jn_end junction)],
                               ''NC_SJ_boundary'',
                               py_str (combinedJunctionDist (cl_dist ref_donor)
                                                            (cl_dist ref_acceptor)),
                               ''Uncorrected'', ''TooFarFromAnnotJn'']]\<rparr>)"
proof -
  have a: "attempt_jn_correction cls t js (int n) (r_genome refs) (r_donors refs)
           (r_acceptors refs) (r_sjAnnot refs) maxDist
         = (Inr (t, False, ''TooFarFromAnnotJn'',
                 combinedJunctionDist (cl_dist ref_donor) (cl_dist ref_acceptor)), js)" for t
    using jn found far by (simp add: attempt_jn_correction_def Let_def)
  have "clean_body cls refs maxDist s n
         = Inr (s\<lparr>clean_log := (clean_log s)\<lparr>uncorrected_NC_SJs :=
                                   incr (uncorrected_NC_SJs (clean_log s))\<rparr>,
                  clean_TE := clean_TE s @
                    [join tab [QNAME (cur_transcript s),
                               join ''_'' [jn_chrom junction, py_str (jn_start junction),
                                           py_str (jn_end junction)],
                               ''NC_SJ_boundary'',
                               py_str (combinedJunctionDist (cl_dist ref_donor)
                                                            (cl_dist ref_acceptor)),
                               ''Uncorrected'', ''TooFarFromAnnotJn'']]\<rparr>)"
    using jn nc s a [of "cur_transcript s"] by (simp add: clean_body_def Let_def)
  with a show ?thesis by simp
qed

subsection \<open>The junction theorems at the example reads\<close>

lemma ex_found:
  "find_closest_ref_junction ex_jn (r_donors (ex_refs 3 (- 3))) (r_acceptors (ex_refs 3 (- 3)))
   = Inr (\<lparr>cl_chrom = ''chr1'', cl_start = 112, cl_end = 113, cl_dist = 3\<rparr>,
          \<lparr>cl_chrom = ''chr1'', cl_start = 205, cl_end = 206, cl_dist = - 3\<rparr>)"
  by code_simp

theorem too_far_left_unmodified_witness:
  "py_get [ex_jn] 0 = Inr ex_jn \<and> combinedJunctionDist 3 (- 3) > 5 \<and> \<not> jn_isCanonical ex_jn
   \<and> attempt_jn_correction ex_classes_strict ex_sj [ex_jn] 0 ex_genome (ex_bed 3) (ex_bed (- 3))
        {''chr1_106_+,chr1_209_+''} 5
      = (Inr (ex_sj, False, ''TooFarFromAnnotJn'', 6), [ex_jn])"
proof -
  have jn: "py_get [ex_jn] (int 0) = Inr ex_jn" by (simp add: py_get_def)
  have far: "combinedJunctionDist (cl_dist \<lparr>cl_chrom = ''chr1'', cl_start = 112, cl_end = 113,
                                               cl_dist = 3\<rparr>)
               (cl_dist \<lparr>cl_chrom = ''chr1'', cl_start = 205, cl_end = 206, cl_dist = - 3\<rparr>) > 5
             \<or> \<bar>cl_dist \<lparr>cl_chrom = ''chr1'', cl_start = 112, cl_end = 113, cl_dist = 3\<rparr>\<bar> > 2 * 5
             \<or> \<bar>cl_dist \<lparr>cl_chrom = ''chr1'', cl_start = 205, cl_end = 206,
                          cl_dist = - 3\<rparr>\<bar> > 2 * 5"
    by (simp add: combinedJunctionDist_def)
  have nc: "\<not> jn_isCanonical ex_jn" by (simp add: ex_jn_def)
  have s: "cur_junctions \<lparr>cur_transcript = ex_sj, cur_junctions = [ex_jn], clean_log = ex_log,
                           clean_TE = []\<rparr> = [ex_jn]"
    by simp
  from too_far_left_unmodified [OF jn ex_found far nc s, of ex_classes_strict ex_sj]
  have "attempt_jn_correction ex_classes_strict ex_sj [ex_jn] 0 ex_genome (ex_bed 3)
          (ex_bed (- 3)) {''chr1_106_+,chr1_209_+''} 5
        = (Inr (ex_sj, False, ''TooFarFromAnnotJn'', 6), [ex_jn])"
    by (simp add: ex_refs_def combinedJunctionDist_def)
  with jn nc show ?thesis by (simp add: combinedJunctionDist_def)
qed

text \<open>
  Claim C3 does not hold of the code. The example read has a noncanonical junction whose
  nearest annotated donor is four bases upstream; its exon ends with a deletion close to
  the junction, so shortening the exon by four bases leaves a CIGAR that spans more bases
  than the sequence has, and the tag method fails in the updates after the two fixes. The
  junction is logged "Uncorrected", "Other" and the transcript keeps its sequence, CIGAR and
  tags; but the donor boundary, moved by \<^verbatim>\<open>fix_one_side_of_junction\<close> in the object the
  copy shares with the transcript, and the junction position recomputed from it, stay
  moved: the junction store is not the one from before the attempt.
\<close>

theorem cleanNoncanonical_other_keeps_moved_bound:
  "cleanNoncanonical ex_classes_strict ex_sj [ex_jn] (ex_refs (- 4) 0) 5 ex_log
   = Inr \<lparr>cur_transcript = ex_sj,
          cur_junctions = [ex_jn\<lparr>jn_start := 106, jn_donor := \<lparr>pos = 106, bound = 0\<rparr>\<rparr>],
          clean_log = ex_log\<lparr>corrected_NC_SJs := Some 0, uncorrected_NC_SJs := Some 1\<rparr>,
          clean_TE = [join tab [''read2'', ''chr1_110_209'', ''NC_SJ_boundary'', ''4'',
                                ''Uncorrected'', ''Other'']]\<rparr>
   \<and> [ex_jn\<lparr>jn_start := 106, jn_donor := \<lparr>pos = 106, bound = 0\<rparr>\<rparr>] \<noteq> [ex_jn]"
  by code_simp

text \<open>
  Claim C2 does not hold of the code, for the same reason. The example read has two
  noncanonical junctions; the first is corrected by one base, the lookup of the second
  raises. The handler returns the original transcript, no log entries and one warning, but
  the first junction's objects keep the correction that the returned sequence and CIGAR no
  longer have.
\<close>

theorem correct_transcript_keeps_moved_junction:
  "transcript_init ex_classes_two ex_line (r_genome ex_refs_failing) (r_sjAnnot ex_refs_failing)
   = Inr (Some (ex_sj2, [ex_jn, ex_jn2]),
          ex_log\<lparr>TranscriptID := ''read3''\<rparr>, [])
   \<and> correct_transcript ex_classes_two ex_line ex_options ex_refs_failing
   = Inr \<lparr>out_transcript = Some ex_sj2,
          out_junctions = [ex_jn\<lparr>jn_start := 109, jn_donor := \<lparr>pos = 109, bound = 0\<rparr>\<rparr>,
                           ex_jn2],
          out_logInfo = ex_log\<lparr>TranscriptID := ''read3'', corrected_NC_SJs := Some 1,
                                uncorrected_NC_SJs := Some 0\<rparr>,
          out_TE = [],
          out_warnings = [''Problem encountered while correcting transcript with ID read3. Will output original version.'']\<rparr>
   \<and> [ex_jn\<lparr>jn_start := 109, jn_donor := \<lparr>pos = 109, bound = 0\<rparr>\<rparr>, ex_jn2]
       \<noteq> [ex_jn, ex_jn2]"
  by code_simp

end
